theory Spec2Isabelle
  imports Complex_Main "HOL-Library.Word"
begin

section \<open>JavaScript values\<close>

text \<open>
  A JavaScript string is a sequence of 16-bit code units. \<open>js\<close> embeds an ASCII
  literal, one code unit per character.
\<close>

type_synonym code_unit = "16 word"
type_synonym jsstring = "code_unit list"

definition js :: "string \<Rightarrow> jsstring" where
  "js s = map (\<lambda>c. word_of_nat (of_char c)) s"

text \<open>
  The numbers \<open>JSON.parse\<close> can produce: a finite double (a rational, with \<open>-0\<close>
  read as \<open>0\<close>) or an infinity (for a literal such as \<open>1e999\<close>). It never produces NaN.
\<close>

datatype jsnumber = Finite rat | PosInfinity | NegInfinity

text \<open>
  The values a handler sees in \<open>req.body\<close> after \<open>express.json()\<close>, and \<open>undefined\<close>:
  for a property that is not there, and for \<open>req.body\<close> itself when no body was parsed
  (Express 5 leaves it undefined; before that the parser set it to \<open>{}\<close>). An object is
  the list of its own properties.
\<close>

datatype jsval =
    Undefined
  | Null
  | Bool bool
  | Num jsnumber
  | Str jsstring
  | Arr "jsval list"
  | Obj "(jsstring \<times> jsval) list"

text \<open>\<open>!v\<close>: the values that convert to \<open>false\<close>.\<close>

fun falsy :: "jsval \<Rightarrow> bool" where
  "falsy Undefined = True"
| "falsy Null = True"
| "falsy (Bool b) = (\<not> b)"
| "falsy (Num n) = (n = Finite 0)"
| "falsy (Str s) = (s = [])"
| "falsy (Arr _) = False"
| "falsy (Obj _) = False"

datatype js_error = TypeError

text \<open>
  \<open>const { name } = req.body\<close>: destructuring \<open>undefined\<close> or \<open>null\<close> throws a
  TypeError; an object gives its property, \<open>undefined\<close> when it does not have it; arrays
  and the other primitive values have no property called \<open>name\<close>.
\<close>

fun get_property :: "jsstring \<Rightarrow> jsval \<Rightarrow> js_error + jsval" where
  "get_property k Undefined = Inl TypeError"
| "get_property k Null = Inl TypeError"
| "get_property k (Obj fs) = Inr (case map_of fs k of None \<Rightarrow> Undefined | Some v \<Rightarrow> v)"
| "get_property k _ = Inr Undefined"

subsection \<open>\<open>parseInt\<close> with one argument\<close>

text \<open>The code units of WhiteSpace and LineTerminator, which \<open>parseInt\<close> skips at the front.\<close>

definition is_white_space :: "code_unit \<Rightarrow> bool" where
  "is_white_space u \<longleftrightarrow>
     u \<in> set [0x9, 0xA, 0xB, 0xC, 0xD, 0x20, 0xA0, 0x1680, 0x2028, 0x2029, 0x202F, 0x205F,
              0x3000, 0xFEFF]
     \<or> (0x2000 \<le> u \<and> u \<le> 0x200A)"

definition digit_value :: "code_unit \<Rightarrow> nat option" where
  "digit_value u =
     (if 0x30 \<le> u \<and> u \<le> 0x39 then Some (unat u - 0x30)
      else if 0x61 \<le> u \<and> u \<le> 0x7A then Some (unat u - 0x61 + 10)
      else if 0x41 \<le> u \<and> u \<le> 0x5A then Some (unat u - 0x41 + 10)
      else None)"

definition radix_digit :: "nat \<Rightarrow> code_unit \<Rightarrow> nat option" where
  "radix_digit R u =
     (case digit_value u of None \<Rightarrow> None | Some d \<Rightarrow> if d < R then Some d else None)"

text \<open>
  The value of the longest prefix of radix-\<open>R\<close> digits, \<open>None\<close> when that prefix
  is empty.
\<close>

fun digits_from :: "nat \<Rightarrow> nat \<Rightarrow> jsstring \<Rightarrow> nat" where
  "digits_from R acc [] = acc"
| "digits_from R acc (u # us) =
     (case radix_digit R u of None \<Rightarrow> acc | Some d \<Rightarrow> digits_from R (acc * R + d) us)"

fun radix_prefix :: "nat \<Rightarrow> jsstring \<Rightarrow> nat option" where
  "radix_prefix R [] = None"
| "radix_prefix R (u # us) =
     (case radix_digit R u of None \<Rightarrow> None | Some d \<Rightarrow> Some (digits_from R d us))"

fun strip_sign :: "jsstring \<Rightarrow> int \<times> jsstring" where
  "strip_sign [] = (1, [])"
| "strip_sign (u # us) =
     (if u = 0x2D then (- 1, us) else if u = 0x2B then (1, us) else (1, u # us))"

fun strip_prefix :: "jsstring \<Rightarrow> nat \<times> jsstring" where
  "strip_prefix (a # b # us) =
     (if a = 0x30 \<and> (b = 0x78 \<or> b = 0x58) then (16, us) else (10, a # b # us))"
| "strip_prefix us = (10, us)"

text \<open>
  \<open>parseInt(string)\<close>: \<open>None\<close> is NaN. The result is the exact integer; JavaScript
  rounds it to a double, which changes it only beyond \<open>2^53\<close>, far above any id the
  program assigns (an array length plus one).
\<close>

definition parseInt :: "jsstring \<Rightarrow> int option" where
  "parseInt string =
     (let (sign, S) = strip_sign (dropWhile is_white_space string);
          (R, S) = strip_prefix S
      in case radix_prefix R S of
           None \<Rightarrow> None
         | Some mathInt \<Rightarrow> Some (sign * int mathInt))"

section \<open>The in-memory service (\<open>app.js\<close>)\<close>

record capybara =
  id' :: int
  name :: jsval

text \<open>
  What a storage call can fail with (only the relational service has such calls): the
  error with which the connection or the server rejects the call, or the server's refusal
  of a parameter that is no 32-bit integer, or of a text that holds a NUL.
\<close>

datatype storage_error = Rejected jsstring | InvalidInteger | InvalidText

text \<open>
  What a request is answered with: the status and the value given to \<open>res.json\<close> (or
  nothing): \<open>{ message: m }\<close>, \<open>{ error: err.message }\<close>, one record, or an array of
  them. \<open>Uncaught e\<close> is the answer to a handler that threw \<open>e\<close>: the handler sends
  nothing itself.
\<close>

datatype payload =
    NoBody
  | Message jsstring
  | Error storage_error
  | Uncaught js_error
  | Item capybara
  | Items "capybara list"

record response =
  status :: nat
  payload :: payload

text \<open>The operations on the array \<open>capybaras\<close>, in the order a handler performs them.\<close>

datatype array_call = ReadAll | Find | FindIndex | ReadLength | Push | Splice | SetName

record ('s, 'c) outcome =
  resp :: response
  store :: 's
  calls :: "'c list"

text \<open>\<open>Array.prototype.findIndex\<close>: the first index that satisfies \<open>P\<close>, or \<open>-1\<close>.\<close>

fun findIndex :: "('a \<Rightarrow> bool) \<Rightarrow> 'a list \<Rightarrow> int" where
  "findIndex P [] = - 1"
| "findIndex P (x # xs) =
     (if P x then 0 else (let i = findIndex P xs in if i = - 1 then - 1 else i + 1))"

text \<open>\<open>xs.splice(start, deleteCount)\<close>: the array that is left.\<close>

definition splice_js :: "int \<Rightarrow> int \<Rightarrow> 'a list \<Rightarrow> 'a list" where
  "splice_js start deleteCount xs =
     (let len = int (length xs);
          actualStart = (if start < 0 then max (len + start) 0 else min start len);
          actualDeleteCount = min (max deleteCount 0) (len - actualStart)
      in take (nat actualStart) xs @ drop (nat (actualStart + actualDeleteCount)) xs)"

text \<open>
  \<open>capybara.name = name\<close> where \<open>capybara\<close> is what \<open>find\<close> returned: the object is
  the array's own element, the first that satisfies \<open>P\<close>, so the write changes it there.
\<close>

fun assign_found :: "('a \<Rightarrow> bool) \<Rightarrow> ('a \<Rightarrow> 'a) \<Rightarrow> 'a list \<Rightarrow> 'a list" where
  "assign_found P f [] = []"
| "assign_found P f (x # xs) = (if P x then f x # xs else x # assign_found P f xs)"

definition not_found :: response where
  "not_found = \<lparr>status = 404, payload = Message (js ''Capybara not found'')\<rparr>"

definition name_required :: response where
  "name_required = \<lparr>status = 400, payload = Message (js ''Name is required'')\<rparr>"

text \<open>
  A handler throws outside any \<open>try\<close>: it ends there, and Express hands the error to
  its error handler, which answers 500. (So for a synchronous handler, and for an
  \<open>async\<close> one on Express 5; before Express 5 the body is never undefined, so nothing
  is thrown.)
\<close>

definition uncaught :: "js_error \<Rightarrow> response" where
  "uncaught e = \<lparr>status = 500, payload = Uncaught e\<rparr>"

text \<open>\<open>c => c.id === parseInt(req.params.id)\<close>; NaN is equal to nothing.\<close>

definition id_is :: "jsstring \<Rightarrow> capybara \<Rightarrow> bool" where
  "id_is param c \<longleftrightarrow> parseInt param = Some (id' c)"

definition get_capybaras :: "capybara list \<Rightarrow> (capybara list, array_call) outcome" where
  "get_capybaras capybaras =
     \<lparr>resp = \<lparr>status = 200, payload = Items capybaras\<rparr>, store = capybaras, calls = [ReadAll]\<rparr>"

definition get_capybara ::
  "capybara list \<Rightarrow> jsstring \<Rightarrow> (capybara list, array_call) outcome" where
  "get_capybara capybaras param =
     (case find (id_is param) capybaras of
        None \<Rightarrow> \<lparr>resp = not_found, store = capybaras, calls = [Find]\<rparr>
      | Some capybara \<Rightarrow>
          \<lparr>resp = \<lparr>status = 200, payload = Item capybara\<rparr>, store = capybaras, calls = [Find]\<rparr>)"

definition post_capybara ::
  "capybara list \<Rightarrow> jsval \<Rightarrow> (capybara list, array_call) outcome" where
  "post_capybara capybaras body =
     (case get_property (js ''name'') body of
        Inl e \<Rightarrow> \<lparr>resp = uncaught e, store = capybaras, calls = []\<rparr>
      | Inr v \<Rightarrow>
          (let name = v in
           if falsy name then \<lparr>resp = name_required, store = capybaras, calls = []\<rparr>
           else
             (let capybara = \<lparr>id' = int (length capybaras) + 1, name = name\<rparr> in
              \<lparr>resp = \<lparr>status = 201, payload = Item capybara\<rparr>,
               store = capybaras @ [capybara],
               calls = [ReadLength, Push]\<rparr>)))"

definition put_capybara ::
  "capybara list \<Rightarrow> jsstring \<Rightarrow> jsval \<Rightarrow> (capybara list, array_call) outcome" where
  "put_capybara capybaras param body =
     (case find (id_is param) capybaras of
        None \<Rightarrow> \<lparr>resp = not_found, store = capybaras, calls = [Find]\<rparr>
      | Some capybara \<Rightarrow>
          (case get_property (js ''name'') body of
             Inl e \<Rightarrow> \<lparr>resp = uncaught e, store = capybaras, calls = [Find]\<rparr>
           | Inr v \<Rightarrow>
               (let name = v in
                if falsy name then \<lparr>resp = name_required, store = capybaras, calls = [Find]\<rparr>
                else
                  \<lparr>resp = \<lparr>status = 200, payload = Item (capybara\<lparr>name := name\<rparr>)\<rparr>,
                   store = assign_found (id_is param) (\<lambda>c. c\<lparr>name := name\<rparr>) capybaras,
                   calls = [Find, SetName]\<rparr>)))"

definition delete_capybara ::
  "capybara list \<Rightarrow> jsstring \<Rightarrow> (capybara list, array_call) outcome" where
  "delete_capybara capybaras param =
     (let index = findIndex (id_is param) capybaras in
      if index = - 1 then \<lparr>resp = not_found, store = capybaras, calls = [FindIndex]\<rparr>
      else
        \<lparr>resp = \<lparr>status = 204, payload = NoBody\<rparr>,
         store = splice_js index 1 capybaras,
         calls = [FindIndex, Splice]\<rparr>)"

text \<open>The five routes, and the collections a session can reach from the empty one.\<close>

datatype request =
    GetAll
  | GetOne jsstring
  | Post jsval
  | Put jsstring jsval
  | Delete jsstring

fun handle :: "capybara list \<Rightarrow> request \<Rightarrow> (capybara list, array_call) outcome" where
  "handle cs GetAll = get_capybaras cs"
| "handle cs (GetOne p) = get_capybara cs p"
| "handle cs (Post b) = post_capybara cs b"
| "handle cs (Put p b) = put_capybara cs p b"
| "handle cs (Delete p) = delete_capybara cs p"

fun run :: "capybara list \<Rightarrow> request list \<Rightarrow> capybara list" where
  "run cs [] = cs"
| "run cs (r # rs) = run (store (handle cs r)) rs"

inductive reachable :: "capybara list \<Rightarrow> bool" where
  start: "reachable []"
| served: "reachable cs \<Longrightarrow> reachable (store (handle cs r))"

section \<open>The relational service (the second \<open>app.js\<close>, on \<open>pg\<close>)\<close>

text \<open>
  Modelled from the spec: the table \<open>capybara\<close> and the server behind \<open>pool.query\<close>
  (the schema file \<open>capybara.sql\<close> and the database are not among the sources). The
  spec gives the table the columns \<open>id\<close> (integer, primary key, auto-increment) and
  \<open>name\<close> (text, not null); \<open>last_id\<close> is the last value the id sequence gave out.
\<close>

record dbrow =
  row_id :: int
  row_name :: jsstring

record database =
  table :: "dbrow list"
  last_id :: int

text \<open>
  The five statements the handlers send, with their parameters as the handlers pass them:
  the name as it came from the body, the id as \<open>parseInt\<close> returned it (\<open>None\<close> is NaN).
\<close>

datatype statement =
    SelectAll
  | SelectById "int option"
  | Insert jsval
  | Update jsval "int option"
  | DeleteById "int option"

definition int4 :: "int option \<Rightarrow> bool" where
  "int4 i = (case i of None \<Rightarrow> False | Some n \<Rightarrow> - (2 ^ 31) \<le> n \<and> n < 2 ^ 31)"

definition has_id :: "int option \<Rightarrow> dbrow \<Rightarrow> bool" where
  "has_id i r \<longleftrightarrow> i = Some (row_id r)"

text \<open>
  Modelled from the spec: what the server does with a statement. \<open>tx\<close> is the text
  that reaches the server for a parameter value (the driver writes a string as it is and
  other values in its own way).
\<close>

fun execute ::
  "(jsval \<Rightarrow> jsstring) \<Rightarrow> database \<Rightarrow> statement \<Rightarrow> (storage_error + dbrow list) \<times> database"
where
  "execute tx db SelectAll = (Inr (sort_key row_id (table db)), db)"
| "execute tx db (SelectById i) =
     (if \<not> int4 i then (Inl InvalidInteger, db)
      else (Inr (filter (has_id i) (table db)), db))"
| "execute tx db (Insert v) =
     (if 0 \<in> set (tx v) then (Inl InvalidText, db)
      else if \<not> int4 (Some (last_id db + 1)) then (Inl InvalidInteger, db)
      else
        (let r = \<lparr>row_id = last_id db + 1, row_name = tx v\<rparr> in
         (Inr [r], \<lparr>table = table db @ [r], last_id = last_id db + 1\<rparr>)))"
| "execute tx db (Update v i) =
     (if 0 \<in> set (tx v) then (Inl InvalidText, db)
      else if \<not> int4 i then (Inl InvalidInteger, db)
      else
        (let rows = map (\<lambda>r. if has_id i r then r\<lparr>row_name := tx v\<rparr> else r) (table db) in
         (Inr (filter (has_id i) rows), db\<lparr>table := rows\<rparr>)))"
| "execute tx db (DeleteById i) =
     (if \<not> int4 i then (Inl InvalidInteger, db)
      else
        (Inr (filter (has_id i) (table db)),
         db\<lparr>table := filter (\<lambda>r. \<not> has_id i r) (table db)\<rparr>))"

text \<open>
  \<open>await pool.query(...)\<close>: \<open>fault\<close> is the error with which this call is rejected,
  if it is (a lost connection, say); a rejected call is taken to leave the table as it was.
\<close>

definition pool_query ::
  "(jsval \<Rightarrow> jsstring) \<Rightarrow> jsstring option \<Rightarrow> database \<Rightarrow> statement
     \<Rightarrow> (storage_error + dbrow list) \<times> database" where
  "pool_query tx fault db st =
     (case fault of Some e \<Rightarrow> (Inl (Rejected e), db) | None \<Rightarrow> execute tx db st)"

text \<open>A row as \<open>pg\<close> hands it to the handler: \<open>{ id, name }\<close> with a string name.\<close>

definition as_object :: "dbrow \<Rightarrow> capybara" where
  "as_object r = \<lparr>id' = row_id r, name = Str (row_name r)\<rparr>"

text \<open>\<open>res.json(result.rows[0])\<close>; \<open>rows[0]\<close> of an empty array is \<open>undefined\<close>, sent as no body.\<close>

definition first_row :: "dbrow list \<Rightarrow> payload" where
  "first_row rows = (case rows of [] \<Rightarrow> NoBody | r # _ \<Rightarrow> Item (as_object r))"

definition storage_failed :: "storage_error \<Rightarrow> response" where
  "storage_failed err = \<lparr>status = 500, payload = Error err\<rparr>"

definition pg_get_capybaras ::
  "(jsval \<Rightarrow> jsstring) \<Rightarrow> jsstring option \<Rightarrow> database \<Rightarrow> (database, statement) outcome" where
  "pg_get_capybaras tx fault db =
     (case pool_query tx fault db SelectAll of
        (Inr rows, db') \<Rightarrow>
          \<lparr>resp = \<lparr>status = 200, payload = Items (map as_object rows)\<rparr>,
           store = db', calls = [SelectAll]\<rparr>
      | (Inl err, db') \<Rightarrow> \<lparr>resp = storage_failed err, store = db', calls = [SelectAll]\<rparr>)"

definition pg_get_capybara ::
  "(jsval \<Rightarrow> jsstring) \<Rightarrow> jsstring option \<Rightarrow> database \<Rightarrow> jsstring
     \<Rightarrow> (database, statement) outcome" where
  "pg_get_capybara tx fault db param =
     (let st = SelectById (parseInt param) in
      case pool_query tx fault db st of
        (Inr rows, db') \<Rightarrow>
          if length rows = 0 then \<lparr>resp = not_found, store = db', calls = [st]\<rparr>
          else \<lparr>resp = \<lparr>status = 200, payload = first_row rows\<rparr>, store = db', calls = [st]\<rparr>
      | (Inl err, db') \<Rightarrow> \<lparr>resp = storage_failed err, store = db', calls = [st]\<rparr>)"

definition pg_post_capybara ::
  "(jsval \<Rightarrow> jsstring) \<Rightarrow> jsstring option \<Rightarrow> database \<Rightarrow> jsval
     \<Rightarrow> (database, statement) outcome" where
  "pg_post_capybara tx fault db body =
     (case get_property (js ''name'') body of
        Inl e \<Rightarrow> \<lparr>resp = uncaught e, store = db, calls = []\<rparr>
      | Inr v \<Rightarrow>
          (let name = v in
           if falsy name then \<lparr>resp = name_required, store = db, calls = []\<rparr>
           else
             (let st = Insert name in
              case pool_query tx fault db st of
                (Inr rows, db') \<Rightarrow>
                  \<lparr>resp = \<lparr>status = 201, payload = first_row rows\<rparr>, store = db', calls = [st]\<rparr>
              | (Inl err, db') \<Rightarrow> \<lparr>resp = storage_failed err, store = db', calls = [st]\<rparr>)))"

definition pg_put_capybara ::
  "(jsval \<Rightarrow> jsstring) \<Rightarrow> jsstring option \<Rightarrow> database \<Rightarrow> jsstring \<Rightarrow> jsval
     \<Rightarrow> (database, statement) outcome" where
  "pg_put_capybara tx fault db param body =
     (case get_property (js ''name'') body of
        Inl e \<Rightarrow> \<lparr>resp = uncaught e, store = db, calls = []\<rparr>
      | Inr v \<Rightarrow>
          (let name = v in
           if falsy name then \<lparr>resp = name_required, store = db, calls = []\<rparr>
           else
             (let st = Update name (parseInt param) in
              case pool_query tx fault db st of
                (Inr rows, db') \<Rightarrow>
                  if length rows = 0 then \<lparr>resp = not_found, store = db', calls = [st]\<rparr>
                  else
                    \<lparr>resp = \<lparr>status = 200, payload = first_row rows\<rparr>, store = db',
                     calls = [st]\<rparr>
              | (Inl err, db') \<Rightarrow> \<lparr>resp = storage_failed err, store = db', calls = [st]\<rparr>)))"

definition pg_delete_capybara ::
  "(jsval \<Rightarrow> jsstring) \<Rightarrow> jsstring option \<Rightarrow> database \<Rightarrow> jsstring
     \<Rightarrow> (database, statement) outcome" where
  "pg_delete_capybara tx fault db param =
     (let st = DeleteById (parseInt param) in
      case pool_query tx fault db st of
        (Inr rows, db') \<Rightarrow>
          if length rows = 0 then \<lparr>resp = not_found, store = db', calls = [st]\<rparr>
          else \<lparr>resp = \<lparr>status = 204, payload = NoBody\<rparr>, store = db', calls = [st]\<rparr>
      | (Inl err, db') \<Rightarrow> \<lparr>resp = storage_failed err, store = db', calls = [st]\<rparr>)"

subsection \<open>The handlers as a relation\<close>

text \<open>
  The same five handlers of the in-memory service, one rule for each way through a
  handler: \<open>serves cs r a cs'\<close> says that request \<open>r\<close> on the collection \<open>cs\<close> can be
  answered with \<open>a\<close>, leaving \<open>cs'\<close>.
\<close>

inductive serves :: "capybara list \<Rightarrow> request \<Rightarrow> response \<Rightarrow> capybara list \<Rightarrow> bool" where
  listed: "serves cs GetAll \<lparr>status = 200, payload = Items cs\<rparr> cs"
| get_missing: "find (id_is p) cs = None \<Longrightarrow> serves cs (GetOne p) not_found cs"
| get_found:
    "find (id_is p) cs = Some c \<Longrightarrow> serves cs (GetOne p) \<lparr>status = 200, payload = Item c\<rparr> cs"
| post_threw:
    "get_property (js ''name'') b = Inl e \<Longrightarrow> serves cs (Post b) (uncaught e) cs"
| post_refused:
    "get_property (js ''name'') b = Inr n \<Longrightarrow> falsy n \<Longrightarrow>
     serves cs (Post b) name_required cs"
| post_created:
    "get_property (js ''name'') b = Inr n \<Longrightarrow> \<not> falsy n \<Longrightarrow>
     c = \<lparr>id' = int (length cs) + 1, name = n\<rparr> \<Longrightarrow>
     serves cs (Post b) \<lparr>status = 201, payload = Item c\<rparr> (cs @ [c])"
| put_missing: "find (id_is p) cs = None \<Longrightarrow> serves cs (Put p b) not_found cs"
| put_threw:
    "find (id_is p) cs = Some c \<Longrightarrow> get_property (js ''name'') b = Inl e \<Longrightarrow>
     serves cs (Put p b) (uncaught e) cs"
| put_refused:
    "find (id_is p) cs = Some c \<Longrightarrow> get_property (js ''name'') b = Inr n \<Longrightarrow> falsy n \<Longrightarrow>
     serves cs (Put p b) name_required cs"
| put_updated:
    "find (id_is p) cs = Some c \<Longrightarrow> get_property (js ''name'') b = Inr n \<Longrightarrow> \<not> falsy n \<Longrightarrow>
     serves cs (Put p b) \<lparr>status = 200, payload = Item (c\<lparr>name := n\<rparr>)\<rparr>
       (assign_found (id_is p) (\<lambda>c. c\<lparr>name := n\<rparr>) cs)"
| delete_missing: "findIndex (id_is p) cs = - 1 \<Longrightarrow> serves cs (Delete p) not_found cs"
| delete_done:
    "findIndex (id_is p) cs = i \<Longrightarrow> i \<noteq> - 1 \<Longrightarrow>
     serves cs (Delete p) \<lparr>status = 204, payload = NoBody\<rparr> (splice_js i 1 cs)"

section \<open>Requests and sessions used as examples\<close>

text \<open>The body \<open>{ "name": s }\<close>.\<close>

definition named :: "string \<Rightarrow> jsval" where
  "named s = Obj [(js ''name'', Str (js s))]"

text \<open>
  A driver for the examples: a string goes to the server as it is; the examples send
  nothing else.
\<close>

fun string_text :: "jsval \<Rightarrow> jsstring" where
  "string_text (Str s) = s"
| "string_text _ = []"

text \<open>Two records are created and the first is deleted: one record is left, with id 2.\<close>

definition two_then_delete :: "request list" where
  "two_then_delete = [Post (named ''a''), Post (named ''b''), Delete (js ''1'')]"

text \<open>
  Three records are created, the first two are deleted and a fourth is created, at length
  one.
\<close>

definition three_then_two_deletes :: "request list" where
  "three_then_two_deletes =
     [Post (named ''a''), Post (named ''b''), Post (named ''c''), Delete (js ''1''),
      Delete (js ''2''), Post (named ''d'')]"

section \<open>Facts about the array operations\<close>

lemma findIndex_bounds: "- 1 \<le> findIndex P xs \<and> findIndex P xs < int (length xs)"
  by (induction xs) (auto simp: Let_def)

lemma findIndex_none: "findIndex P xs = - 1 \<longleftrightarrow> (\<forall>x\<in>set xs. \<not> P x)"
proof (induction xs)
  case Nil
  show ?case by simp
next
  case (Cons x xs)
  have "- 1 \<le> findIndex P xs" using findIndex_bounds [of P xs] by simp
  with Cons show ?case by (auto simp: Let_def)
qed

lemma findIndex_takeWhile:
  "findIndex P xs \<noteq> - 1 \<Longrightarrow> findIndex P xs = int (length (takeWhile (\<lambda>x. \<not> P x) xs))"
  by (induction xs) (auto simp: Let_def split: if_splits)

lemma splice_one:
  "0 \<le> i \<Longrightarrow> i < int (length xs) \<Longrightarrow> splice_js i 1 xs = take (nat i) xs @ drop (Suc (nat i)) xs"
  by (simp add: splice_js_def Let_def min_def max_def nat_add_distrib)

lemma find_none: "find P xs = None \<longleftrightarrow> (\<forall>x\<in>set xs. \<not> P x)"
  by (auto simp: find_None_iff)

lemma delete_first_match:
  assumes "findIndex P xs \<noteq> - 1"
  shows "\<exists>before c after. xs = before @ c # after \<and> P c \<and> (\<forall>x\<in>set before. \<not> P x)
           \<and> splice_js (findIndex P xs) 1 xs = before @ after"
proof -
  let ?b = "takeWhile (\<lambda>x. \<not> P x) xs"
  let ?d = "dropWhile (\<lambda>x. \<not> P x) xs"
  from assms have "\<exists>x\<in>set xs. P x" using findIndex_none [of P xs] by blast
  then have d: "?d \<noteq> []" by auto
  then obtain c after where ca: "?d = c # after" by (cases ?d) auto
  have Pc: "P c" using hd_dropWhile [OF d] ca by simp
  have xs: "xs = ?b @ c # after" using takeWhile_dropWhile_id [of "\<lambda>x. \<not> P x" xs] ca by simp
  have i: "findIndex P xs = int (length ?b)" using findIndex_takeWhile [OF assms] .
  have lt: "length ?b < length xs" using arg_cong [OF xs, of length] by simp
  have "splice_js (findIndex P xs) 1 xs = take (length ?b) xs @ drop (Suc (length ?b)) xs"
    using splice_one [of "int (length ?b)" xs] lt i by simp
  also have "take (length ?b) xs = ?b"
    by (subst (2) xs) simp
  also have "drop (Suc (length ?b)) xs = after"
    by (subst xs) simp
  finally have "splice_js (findIndex P xs) 1 xs = ?b @ after" .
  moreover have "\<forall>x\<in>set ?b. \<not> P x" by (auto dest: set_takeWhileD)
  ultimately show ?thesis using xs Pc by blast
qed

lemma set_splice: "set (splice_js i n xs) \<subseteq> set xs"
  using set_take_subset [of _ xs] set_drop_subset [of _ xs] by (fastforce simp: splice_js_def Let_def)

lemma assign_found_keeps:
  "\<forall>x\<in>set xs. Q x \<Longrightarrow> \<forall>x\<in>set xs. Q (f x) \<Longrightarrow> \<forall>x\<in>set (assign_found P f xs). Q x"
  by (induction xs) auto

section \<open>Reachable collections\<close>

lemma reachable_run: "reachable cs \<Longrightarrow> reachable (run cs rs)"
  by (induction rs arbitrary: cs) (auto intro: reachable.served)

text \<open>
  Every record a session stores has a name that passed the check \<open>!name\<close>: it is not
  missing, not null and not the empty string.
\<close>

lemma stored_names_truthy: "reachable cs \<Longrightarrow> \<forall>c\<in>set cs. \<not> falsy (name c)"
proof (induction rule: reachable.induct)
  case start
  show ?case by simp
next
  case (served cs r)
  show ?case
  proof (cases r)
    case GetAll
    with served show ?thesis by (simp add: get_capybaras_def)
  next
    case (GetOne p)
    with served show ?thesis by (simp add: get_capybara_def split: option.splits)
  next
    case (Post b)
    with served show ?thesis
      by (auto simp: post_capybara_def Let_def split: sum.splits)
  next
    case (Put p b)
    show ?thesis
    proof (cases "get_property (js ''name'') b")
      case (Inl e)
      with Put served show ?thesis
        by (simp add: put_capybara_def split: option.splits)
    next
      case (Inr n)
      show ?thesis
      proof (cases "falsy n")
        case True
        with Inr Put served show ?thesis
          by (simp add: put_capybara_def split: option.splits)
      next
        case False
        with served.IH
        have "\<forall>c\<in>set (assign_found (id_is p) (\<lambda>c. c\<lparr>name := n\<rparr>) cs). \<not> falsy (name c)"
          by (intro assign_found_keeps) simp_all
        with Inr Put served.IH show ?thesis
          by (simp add: put_capybara_def split: option.splits)
      qed
    qed
  next
    case (Delete p)
    have "set (store (delete_capybara cs p)) \<subseteq> set cs"
      using set_splice [of _ _ cs] by (simp add: delete_capybara_def Let_def)
    with Delete served.IH show ?thesis by auto
  qed
qed

section \<open>Ids after a deletion\<close>

text \<open>
  C1: every stored record has a non-empty name and an id that no other stored record has,
  and an id is not used again after its record was deleted. The names are as claimed
  (\<open>stored_names_truthy\<close>). The ids are not: the in-memory POST numbers a record with
  the length of the array plus one, so after ``create a, create b, delete 1, create c'' the
  collection holds two records with id 2, and after ``create a, delete 1, create b'' the
  new record has the deleted record's id 1.
\<close>

theorem id_reused_after_delete:
  "reachable (run [] (two_then_delete @ [Post (named ''c'')]))
   \<and> run [] (two_then_delete @ [Post (named ''c'')])
       = [\<lparr>id' = 2, name = Str (js ''b'')\<rparr>, \<lparr>id' = 2, name = Str (js ''c'')\<rparr>]
   \<and> \<not> distinct (map id' (run [] (two_then_delete @ [Post (named ''c'')])))
   \<and> run [] [Post (named ''a''), Delete (js ''1''), Post (named ''b'')]
       = [\<lparr>id' = 1, name = Str (js ''b'')\<rparr>]"
proof -
  have r: "reachable (run [] (two_then_delete @ [Post (named ''c'')]))"
    by (rule reachable_run [OF reachable.start])
  have e: "run [] (two_then_delete @ [Post (named ''c'')])
       = [\<lparr>id' = 2, name = Str (js ''b'')\<rparr>, \<lparr>id' = 2, name = Str (js ''c'')\<rparr>]"
    by code_simp
  have d: "run [] [Post (named ''a''), Delete (js ''1''), Post (named ''b'')]
       = [\<lparr>id' = 1, name = Str (js ''b'')\<rparr>]"
    by code_simp
  from r e d show ?thesis by simp
qed

text \<open>
  While no stored record has the id that the POST assigns, a GET of that id right after the
  POST answers 200 with the record just created.
\<close>

lemma find_append_fresh:
  "\<forall>x\<in>set xs. \<not> P x \<Longrightarrow> P y \<Longrightarrow> find P (xs @ [y]) = Some y"
  by (induction xs) auto

lemma fresh_id_post_then_get:
  assumes "get_property (js ''name'') body = Inr n" and "\<not> falsy n"
    and "\<forall>c\<in>set cs. id' c \<noteq> int (length cs) + 1"
    and "parseInt param = Some (int (length cs) + 1)"
  shows "resp (get_capybara (store (post_capybara cs body)) param) =
           \<lparr>status = 200, payload = Item \<lparr>id' = int (length cs) + 1, name = n\<rparr>\<rparr>"
proof -
  let ?c = "\<lparr>id' = int (length cs) + 1, name = n\<rparr>"
  from assms(1,2) have st: "store (post_capybara cs body) = cs @ [?c]"
    by (simp add: post_capybara_def Let_def)
  from assms(3,4) have "\<forall>c\<in>set cs. \<not> id_is param c" by (auto simp: id_is_def)
  moreover from assms(4) have "id_is param ?c" by (simp add: id_is_def)
  ultimately have "find (id_is param) (cs @ [?c]) = Some ?c" by (rule find_append_fresh)
  with st show ?thesis by (simp add: get_capybara_def)
qed

text \<open>
  C2: POST with a non-empty name and then GET of the returned id answers 200 with a record
  of that name. Not so at a collection reached through a deletion: after ``create a, create
  b, delete 1'' the POST of \<open>c\<close> returns id 2, which the record \<open>b\<close> already has, and the
  GET of 2 answers 200 with \<open>b\<close>, the first match.
\<close>

theorem post_then_get_other_record:
  "reachable (run [] two_then_delete)
   \<and> resp (post_capybara (run [] two_then_delete) (named ''c''))
       = \<lparr>status = 201, payload = Item \<lparr>id' = 2, name = Str (js ''c'')\<rparr>\<rparr>
   \<and> resp (get_capybara (store (post_capybara (run [] two_then_delete) (named ''c''))) (js ''2''))
       = \<lparr>status = 200, payload = Item \<lparr>id' = 2, name = Str (js ''b'')\<rparr>\<rparr>"
proof -
  have r: "reachable (run [] two_then_delete)"
    by (rule reachable_run [OF reachable.start])
  have p: "resp (post_capybara (run [] two_then_delete) (named ''c''))
       = \<lparr>status = 201, payload = Item \<lparr>id' = 2, name = Str (js ''c'')\<rparr>\<rparr>"
    by code_simp
  have g: "resp (get_capybara (store (post_capybara (run [] two_then_delete) (named ''c''))) (js ''2''))
       = \<lparr>status = 200, payload = Item \<lparr>id' = 2, name = Str (js ''b'')\<rparr>\<rparr>"
    by code_simp
  from r p g show ?thesis by simp
qed

text \<open>
  While the stored ids are distinct, a GET of an id right after a DELETE of it answers 404,
  whether the DELETE answered 204 or 404.
\<close>

lemma distinct_ids_delete_then_get:
  assumes "distinct (map id' cs)"
  shows "resp (get_capybara (store (delete_capybara cs param)) param) = not_found"
proof (cases "findIndex (id_is param) cs = - 1")
  case True
  then have "\<forall>c\<in>set cs. \<not> id_is param c" by (simp add: findIndex_none)
  then have "find (id_is param) cs = None" by (simp add: find_none)
  with True show ?thesis by (simp add: delete_capybara_def get_capybara_def)
next
  case False
  from delete_first_match [OF False] obtain before c after where
    cs: "cs = before @ c # after" and c: "id_is param c"
    and b: "\<forall>x\<in>set before. \<not> id_is param x"
    and sp: "splice_js (findIndex (id_is param) cs) 1 cs = before @ after"
    by blast
  from assms cs have "id' c \<notin> id' ` set after" by simp
  with c have "\<forall>x\<in>set after. \<not> id_is param x" by (auto simp: id_is_def)
  with b have "\<forall>x\<in>set (before @ after). \<not> id_is param x" by auto
  then have "find (id_is param) (before @ after) = None" by (simp only: find_none)
  with False sp show ?thesis by (simp add: delete_capybara_def get_capybara_def Let_def)
qed

text \<open>
  C3: DELETE of an id and then GET of the same id answers 404. Not so at a reachable
  collection with two records of id 2 (``create a, create b, delete 1, create c''): the
  DELETE of 2 answers 204 and removes the first of them, and the GET of 2 then answers 200
  with the second.
\<close>

theorem delete_then_get_still_found:
  "reachable (run [] (two_then_delete @ [Post (named ''c'')]))
   \<and> status (resp (delete_capybara (run [] (two_then_delete @ [Post (named ''c'')])) (js ''2'')))
       = 204
   \<and> resp (get_capybara
        (store (delete_capybara (run [] (two_then_delete @ [Post (named ''c'')])) (js ''2'')))
        (js ''2''))
       = \<lparr>status = 200, payload = Item \<lparr>id' = 2, name = Str (js ''c'')\<rparr>\<rparr>"
proof -
  have r: "reachable (run [] (two_then_delete @ [Post (named ''c'')]))"
    by (rule reachable_run [OF reachable.start])
  have d: "status (resp (delete_capybara (run [] (two_then_delete @ [Post (named ''c'')])) (js ''2'')))
       = 204"
    by code_simp
  have g: "resp (get_capybara
        (store (delete_capybara (run [] (two_then_delete @ [Post (named ''c'')])) (js ''2'')))
        (js ''2''))
       = \<lparr>status = 200, payload = Item \<lparr>id' = 2, name = Str (js ''c'')\<rparr>\<rparr>"
    by code_simp
  from r d g show ?thesis by simp
qed

text \<open>
  The relational service lists the rows in ascending order of id (\<open>ORDER BY id\<close>), when
  the call is not rejected.
\<close>

lemma pg_list_ascending:
  "pg_get_capybaras tx None db =
     \<lparr>resp = \<lparr>status = 200, payload = Items (map as_object (sort_key row_id (table db)))\<rparr>,
      store = db, calls = [SelectAll]\<rparr>
   \<and> sorted (map id' (map as_object (sort_key row_id (table db))))"
proof -
  have "id' \<circ> as_object = row_id"
    by (rule ext) (simp add: as_object_def)
  then show ?thesis by (simp add: pg_get_capybaras_def pool_query_def)
qed

text \<open>
  C4: GET of the list answers with all stored records in ascending order of id. Not so in
  the in-memory service, which answers with the array as it is: after three creations and
  the deletion of ids 1 and 2, the next record gets id 2 and is listed behind the record
  with id 3.
\<close>

theorem list_not_ascending:
  "reachable (run [] three_then_two_deletes)
   \<and> payload (resp (get_capybaras (run [] three_then_two_deletes)))
       = Items [\<lparr>id' = 3, name = Str (js ''c'')\<rparr>, \<lparr>id' = 2, name = Str (js ''d'')\<rparr>]
   \<and> \<not> sorted (map id' (run [] three_then_two_deletes))"
proof -
  have r: "reachable (run [] three_then_two_deletes)"
    by (rule reachable_run [OF reachable.start])
  have e: "run [] three_then_two_deletes
       = [\<lparr>id' = 3, name = Str (js ''c'')\<rparr>, \<lparr>id' = 2, name = Str (js ''d'')\<rparr>]"
    by code_simp
  from r e show ?thesis by (simp add: get_capybaras_def)
qed

section \<open>Validation of the name\<close>

lemma post_falsy_name:
  "get_property (js ''name'') body = Inr n \<Longrightarrow> falsy n \<Longrightarrow>
     post_capybara cs body = \<lparr>resp = name_required, store = cs, calls = []\<rparr>"
  by (simp add: post_capybara_def)

lemma pg_post_falsy_name:
  "get_property (js ''name'') body = Inr n \<Longrightarrow> falsy n \<Longrightarrow>
     pg_post_capybara tx fault db body = \<lparr>resp = name_required, store = db, calls = []\<rparr>"
  by (simp add: pg_post_capybara_def)

lemma pg_put_falsy_name:
  "get_property (js ''name'') body = Inr n \<Longrightarrow> falsy n \<Longrightarrow>
     pg_put_capybara tx fault db param body = \<lparr>resp = name_required, store = db, calls = []\<rparr>"
  by (simp add: pg_put_capybara_def)

lemma put_falsy_name:
  "get_property (js ''name'') body = Inr n \<Longrightarrow> falsy n \<Longrightarrow>
     put_capybara cs param body =
       \<lparr>resp = (if find (id_is param) cs = None then not_found else name_required),
        store = cs, calls = [Find]\<rparr>"
  by (simp add: put_capybara_def split: option.splits)

text \<open>
  A body that is \<open>undefined\<close> or \<open>null\<close>: reading its name throws. The POST handlers and
  the relational PUT throw before any storage call; the in-memory PUT throws after its
  lookup, when the id is stored.
\<close>

lemma no_body_throws:
  assumes "body = Undefined \<or> body = Null"
  shows "post_capybara cs body = \<lparr>resp = uncaught TypeError, store = cs, calls = []\<rparr>"
    and "pg_post_capybara tx fault db body = \<lparr>resp = uncaught TypeError, store = db, calls = []\<rparr>"
    and "pg_put_capybara tx fault db param body
           = \<lparr>resp = uncaught TypeError, store = db, calls = []\<rparr>"
    and "put_capybara cs param body =
           \<lparr>resp = (if find (id_is param) cs = None then not_found else uncaught TypeError),
            store = cs, calls = [Find]\<rparr>"
  using assms
  by (auto simp: post_capybara_def pg_post_capybara_def pg_put_capybara_def put_capybara_def
      split: option.splits)

lemma put_absent:
  "\<forall>c\<in>set cs. \<not> id_is param c \<Longrightarrow>
     put_capybara cs param body = \<lparr>resp = not_found, store = cs, calls = [Find]\<rparr>"
  using find_none [of "id_is param" cs] by (simp add: put_capybara_def)

lemma pg_put_absent:
  assumes "get_property (js ''name'') body = Inr n" and "\<not> falsy n" and "fault = None"
    and "int4 (parseInt param)" and "0 \<notin> set (tx n)"
    and "\<forall>r\<in>set (table db). \<not> has_id (parseInt param) r"
  shows "pg_put_capybara tx fault db param body =
           \<lparr>resp = not_found, store = db, calls = [Update n (parseInt param)]\<rparr>"
proof -
  from assms(6) have same: "map (\<lambda>r. if has_id (parseInt param) r
      then r\<lparr>row_name := tx n\<rparr> else r) (table db) = table db"
    by (induction "table db") (auto simp: map_idI)
  from assms(6) have none: "filter (has_id (parseInt param)) (table db) = []"
    by (simp add: filter_empty_conv)
  from assms(1-5) same none show ?thesis
    by (simp add: pg_put_capybara_def pool_query_def Let_def)
qed

text \<open>
  C5 as stated (PUT on an id that is not stored answers 404 whatever the body) fails in the
  relational service: on an empty table, PUT of id 1 with the body \<open>{}\<close> answers 400.
\<close>

theorem relational_put_validates_first:
  "table \<lparr>table = [], last_id = 0\<rparr> = []
   \<and> get_property (js ''name'') (Obj []) = Inr Undefined
   \<and> status (resp (pg_put_capybara string_text None \<lparr>table = [], last_id = 0\<rparr> (js ''1'') (Obj [])))
       = 400"
  by (simp add: pg_put_capybara_def name_required_def)

text \<open>
  C5, amended: in the in-memory service a PUT on an id that no stored record has answers 404
  whatever the body (a body that is not there included: the handler answers before it reads
  the body). The relational service reads and checks the name first: when the body is there
  and its name \<open>n\<close> is missing or empty (falsy), it answers 400 whatever the id; when the
  name is another value, the call is not rejected, the id is a 32-bit integer that no row
  has and the name's text holds no NUL, it answers 404.
\<close>

theorem put_unknown_id:
  "((\<forall>c\<in>set cs. \<not> id_is param c) \<longrightarrow> status (resp (put_capybara cs param body)) = 404)
   \<and> (get_property (js ''name'') body = Inr n \<and> falsy n \<longrightarrow>
        status (resp (pg_put_capybara tx fault db param body)) = 400)
   \<and> (get_property (js ''name'') body = Inr n \<and> \<not> falsy n \<and> fault = None
        \<and> int4 (parseInt param) \<and> 0 \<notin> set (tx n)
        \<and> (\<forall>r\<in>set (table db). \<not> has_id (parseInt param) r) \<longrightarrow>
        status (resp (pg_put_capybara tx fault db param body)) = 404)"
proof (intro conjI impI)
  assume "\<forall>c\<in>set cs. \<not> id_is param c"
  then show "status (resp (put_capybara cs param body)) = 404"
    by (simp add: put_absent not_found_def)
next
  assume "get_property (js ''name'') body = Inr n \<and> falsy n"
  then show "status (resp (pg_put_capybara tx fault db param body)) = 400"
    by (simp add: pg_put_falsy_name name_required_def)
next
  assume "get_property (js ''name'') body = Inr n \<and> \<not> falsy n \<and> fault = None
        \<and> int4 (parseInt param) \<and> 0 \<notin> set (tx n)
        \<and> (\<forall>r\<in>set (table db). \<not> has_id (parseInt param) r)"
  then show "status (resp (pg_put_capybara tx fault db param body)) = 404"
    by (simp add: pg_put_absent not_found_def)
qed

theorem put_unknown_id_witness:
  "\<not> id_is (js ''7'') \<lparr>id' = 1, name = Str (js ''a'')\<rparr>
   \<and> status (resp (put_capybara [\<lparr>id' = 1, name = Str (js ''a'')\<rparr>] (js ''7'') (Obj []))) = 404
   \<and> get_property (js ''name'') (Obj []) = Inr Undefined
   \<and> status (resp (pg_put_capybara string_text None
        \<lparr>table = [\<lparr>row_id = 1, row_name = js ''a''\<rparr>], last_id = 1\<rparr> (js ''7'') (Obj []))) = 400
   \<and> get_property (js ''name'') (named ''z'') = Inr (Str (js ''z''))
   \<and> int4 (parseInt (js ''7''))
   \<and> \<not> has_id (parseInt (js ''7'')) \<lparr>row_id = 1, row_name = js ''a''\<rparr>
   \<and> status (resp (pg_put_capybara string_text None
        \<lparr>table = [\<lparr>row_id = 1, row_name = js ''a''\<rparr>], last_id = 1\<rparr> (js ''7'') (named ''z''))) = 404"
proof -
  have a: "\<not> id_is (js ''7'') \<lparr>id' = 1, name = Str (js ''a'')\<rparr>" by code_simp
  have b: "get_property (js ''name'') (Obj []) = Inr Undefined" by simp
  have c: "get_property (js ''name'') (named ''z'') = Inr (Str (js ''z''))"
    by (simp add: named_def js_def)
  have c': "\<not> falsy (Str (js ''z''))" by (simp add: js_def)
  have d: "int4 (parseInt (js ''7''))" by code_simp
  have e: "\<not> has_id (parseInt (js ''7'')) \<lparr>row_id = 1, row_name = js ''a''\<rparr>" by code_simp
  have f: "0 \<notin> set (string_text (Str (js ''z'')))" by (simp add: js_def)
  from put_unknown_id [of "[\<lparr>id' = 1, name = Str (js ''a'')\<rparr>]" "js ''7''" "Obj []" Undefined
      string_text None "\<lparr>table = [\<lparr>row_id = 1, row_name = js ''a''\<rparr>], last_id = 1\<rparr>"]
    put_unknown_id [of "[\<lparr>id' = 1, name = Str (js ''a'')\<rparr>]" "js ''7''" "named ''z''"
      "Str (js ''z'')" string_text None
      "\<lparr>table = [\<lparr>row_id = 1, row_name = js ''a''\<rparr>], last_id = 1\<rparr>"]
    a b c c' d e f
  show ?thesis by simp
qed

text \<open>
  C6 as stated (a missing or empty name is answered with 400 before any storage operation,
  by POST and PUT) fails for the in-memory PUT: it looks the id up first, and with the
  body \<open>{}\<close> on an id that is not stored it answers 404 after one \<open>find\<close>.
\<close>

theorem in_memory_put_looks_up_first:
  "get_property (js ''name'') (Obj []) = Inr Undefined
   \<and> status (resp (put_capybara [\<lparr>id' = 1, name = Str (js ''a'')\<rparr>] (js ''7'') (Obj []))) = 404
   \<and> calls (put_capybara [\<lparr>id' = 1, name = Str (js ''a'')\<rparr>] (js ''7'') (Obj [])) = [Find]"
  by code_simp

text \<open>
  C6, amended: when the body is there (reading its name does not throw) and the name is
  missing or empty, POST in both services and PUT in the relational service answer 400
  without any storage call and leave the store as it was. The in-memory PUT first looks
  the id up, with one \<open>find\<close>: it answers 404 when no record has the id and 400 otherwise,
  and changes nothing either way.
\<close>

theorem validation_before_storage:
  assumes "get_property (js ''name'') body = Inr Undefined
         \<or> get_property (js ''name'') body = Inr (Str [])"
  shows "post_capybara cs body = \<lparr>resp = name_required, store = cs, calls = []\<rparr>
       \<and> pg_post_capybara tx fault db body = \<lparr>resp = name_required, store = db, calls = []\<rparr>
       \<and> pg_put_capybara tx fault db param body
           = \<lparr>resp = name_required, store = db, calls = []\<rparr>
       \<and> put_capybara cs param body
           = \<lparr>resp = (if find (id_is param) cs = None then not_found else name_required),
              store = cs, calls = [Find]\<rparr>
       \<and> status name_required = 400 \<and> status not_found = 404"
proof -
  from assms obtain n where n: "get_property (js ''name'') body = Inr n" "falsy n" by auto
  show ?thesis
    by (simp add: post_falsy_name [OF n] pg_post_falsy_name [OF n] pg_put_falsy_name [OF n]
        put_falsy_name [OF n] name_required_def not_found_def)
qed

theorem validation_before_storage_witness:
  "get_property (js ''name'') (Obj [(js ''name'', Str [])]) = Inr (Str [])
   \<and> calls (post_capybara [] (Obj [(js ''name'', Str [])])) = []
   \<and> calls (pg_put_capybara string_text None \<lparr>table = [], last_id = 0\<rparr> (js ''1'')
        (Obj [(js ''name'', Str [])])) = []
   \<and> status (resp (put_capybara [\<lparr>id' = 1, name = Str (js ''a'')\<rparr>] (js ''1'')
        (Obj [(js ''name'', Str [])]))) = 400"
proof -
  have h: "get_property (js ''name'') (Obj [(js ''name'', Str [])]) = Inr (Str [])"
    by (simp add: js_def)
  have f: "find (id_is (js ''1'')) [\<lparr>id' = 1, name = Str (js ''a'')\<rparr>] \<noteq> None"
    by code_simp
  from validation_before_storage [OF disjI2 [OF h], of "[]" string_text None
      "\<lparr>table = [], last_id = 0\<rparr>" "js ''1''"]
    validation_before_storage [OF disjI2 [OF h], of "[\<lparr>id' = 1, name = Str (js ''a'')\<rparr>]"
      string_text None "\<lparr>table = [], last_id = 0\<rparr>" "js ''1''"] h f
  show ?thesis by (simp add: name_required_def)
qed

text \<open>
  C7: POST with the body \<open>{}\<close> or \<open>{ "name": "" }\<close> answers 400 and creates no record,
  on every collection (so on every reachable one), in both services: the store is as it
  was, the relational service sends no statement, and a GET of the list that follows
  answers as it would have before.
\<close>

theorem post_without_name_rejected:
  assumes "body = Obj [] \<or> body = Obj [(js ''name'', Str [])]"
  shows "status (resp (post_capybara cs body)) = 400
       \<and> store (post_capybara cs body) = cs
       \<and> get_capybaras (store (post_capybara cs body)) = get_capybaras cs
       \<and> status (resp (pg_post_capybara tx fault db body)) = 400
       \<and> store (pg_post_capybara tx fault db body) = db
       \<and> calls (pg_post_capybara tx fault db body) = []
       \<and> pg_get_capybaras tx fault' (store (pg_post_capybara tx fault db body))
           = pg_get_capybaras tx fault' db"
proof -
  from assms obtain n where n: "get_property (js ''name'') body = Inr n" "falsy n"
    by (auto simp: js_def)
  show ?thesis
    by (simp add: post_falsy_name [OF n] pg_post_falsy_name [OF n] name_required_def)
qed

theorem post_without_name_rejected_witness:
  "status (resp (post_capybara [\<lparr>id' = 1, name = Str (js ''a'')\<rparr>] (Obj []))) = 400
   \<and> store (post_capybara [\<lparr>id' = 1, name = Str (js ''a'')\<rparr>] (Obj []))
        = [\<lparr>id' = 1, name = Str (js ''a'')\<rparr>]
   \<and> status (resp (pg_post_capybara string_text None \<lparr>table = [], last_id = 0\<rparr> (Obj []))) = 400
   \<and> store (pg_post_capybara string_text None \<lparr>table = [], last_id = 0\<rparr> (Obj []))
        = \<lparr>table = [], last_id = 0\<rparr>"
  using post_without_name_rejected
    [of "Obj []" "[\<lparr>id' = 1, name = Str (js ''a'')\<rparr>]" string_text None
        "\<lparr>table = [], last_id = 0\<rparr>"]
  by simp

section \<open>Deleting by id\<close>

text \<open>
  C8: in the in-memory service, a DELETE that answers 204 removes exactly the first record
  whose id matches: the collection is \<open>before @ c # after\<close> with \<open>c\<close> the first match,
  what is left is \<open>before @ after\<close> (every other record as it was and in its place), and
  the length went down by one.
\<close>

theorem delete_removes_first_match:
  assumes "status (resp (delete_capybara cs param)) = 204"
  shows "\<exists>before c after.
           cs = before @ c # after \<and> id_is param c \<and> (\<forall>x\<in>set before. \<not> id_is param x)
           \<and> store (delete_capybara cs param) = before @ after
           \<and> length (store (delete_capybara cs param)) + 1 = length cs"
proof -
  from assms have found: "findIndex (id_is param) cs \<noteq> - 1"
    by (auto simp: delete_capybara_def Let_def not_found_def split: if_splits)
  then have st: "store (delete_capybara cs param) = splice_js (findIndex (id_is param) cs) 1 cs"
    by (simp add: delete_capybara_def Let_def)
  from delete_first_match [OF found] obtain before c after where
    "cs = before @ c # after" "id_is param c" "\<forall>x\<in>set before. \<not> id_is param x"
    "splice_js (findIndex (id_is param) cs) 1 cs = before @ after"
    by blast
  with st show ?thesis by (intro exI [of _ before] exI [of _ c] exI [of _ after]) simp
qed

theorem delete_removes_first_match_witness:
  "status (resp (delete_capybara
      [\<lparr>id' = 2, name = Str (js ''b'')\<rparr>, \<lparr>id' = 1, name = Str (js ''a'')\<rparr>,
       \<lparr>id' = 2, name = Str (js ''c'')\<rparr>] (js ''2''))) = 204
   \<and> (\<exists>before c after.
        [\<lparr>id' = 2, name = Str (js ''b'')\<rparr>, \<lparr>id' = 1, name = Str (js ''a'')\<rparr>,
         \<lparr>id' = 2, name = Str (js ''c'')\<rparr>] = before @ c # after
        \<and> store (delete_capybara
             [\<lparr>id' = 2, name = Str (js ''b'')\<rparr>, \<lparr>id' = 1, name = Str (js ''a'')\<rparr>,
              \<lparr>id' = 2, name = Str (js ''c'')\<rparr>] (js ''2'')) = before @ after)"
proof -
  let ?cs = "[\<lparr>id' = 2, name = Str (js ''b'')\<rparr>, \<lparr>id' = 1, name = Str (js ''a'')\<rparr>,
       \<lparr>id' = 2, name = Str (js ''c'')\<rparr>]"
  have h: "status (resp (delete_capybara ?cs (js ''2''))) = 204"
    by code_simp
  from delete_removes_first_match [OF h] h show ?thesis by blast
qed

section \<open>An id that is not a number\<close>

text \<open>
  C9: in the in-memory service, when \<open>parseInt\<close> of the path parameter is NaN, the GET,
  PUT and DELETE handlers find no record and answer 404 with the message
  \<open>Capybara not found\<close>, whatever the body, leaving the collection as it was; the
  answer is never 400 and the handlers have no other way out.
\<close>

theorem malformed_id_not_found:
  assumes "parseInt param = None"
  shows "get_capybara cs param = \<lparr>resp = not_found, store = cs, calls = [Find]\<rparr>
       \<and> put_capybara cs param body = \<lparr>resp = not_found, store = cs, calls = [Find]\<rparr>
       \<and> delete_capybara cs param = \<lparr>resp = not_found, store = cs, calls = [FindIndex]\<rparr>
       \<and> not_found = \<lparr>status = 404, payload = Message (js ''Capybara not found'')\<rparr>"
proof -
  from assms have no: "\<forall>c\<in>set cs. \<not> id_is param c" by (simp add: id_is_def)
  then have "find (id_is param) cs = None" by (simp add: find_none)
  moreover from no have "findIndex (id_is param) cs = - 1" by (simp add: findIndex_none)
  ultimately show ?thesis
    by (simp add: get_capybara_def put_capybara_def delete_capybara_def not_found_def)
qed

theorem malformed_id_not_found_witness:
  "parseInt (js ''abc'') = None
   \<and> status (resp (get_capybara [\<lparr>id' = 1, name = Str (js ''a'')\<rparr>] (js ''abc''))) = 404
   \<and> status (resp (put_capybara [\<lparr>id' = 1, name = Str (js ''a'')\<rparr>] (js ''abc'') (Obj []))) = 404
   \<and> status (resp (delete_capybara [\<lparr>id' = 1, name = Str (js ''a'')\<rparr>] (js ''abc''))) = 404"
proof -
  have h: "parseInt (js ''abc'') = None" by code_simp
  from malformed_id_not_found [OF h, of "[\<lparr>id' = 1, name = Str (js ''a'')\<rparr>]" "Obj []"] h
  show ?thesis by (simp add: not_found_def)
qed

section \<open>The same request twice\<close>

lemma serves_handle: "serves cs r (resp (handle cs r)) (store (handle cs r))"
proof (cases r)
  case GetAll
  then show ?thesis by (simp add: get_capybaras_def serves.listed)
next
  case (GetOne p)
  then show ?thesis
    by (auto simp: get_capybara_def intro: serves.get_missing serves.get_found split: option.splits)
next
  case (Post b)
  then show ?thesis
    by (auto simp: post_capybara_def Let_def split: sum.splits
        intro: serves.post_threw serves.post_refused serves.post_created)
next
  case (Put p b)
  then show ?thesis
    by (auto simp: put_capybara_def Let_def split: option.splits sum.splits
        intro: serves.put_missing serves.put_threw serves.put_refused serves.put_updated)
next
  case (Delete p)
  then show ?thesis
    by (auto simp: delete_capybara_def Let_def intro: serves.delete_missing serves.delete_done)
qed

lemma serves_is_handle:
  "serves cs r a s \<Longrightarrow> a = resp (handle cs r) \<and> s = store (handle cs r)"
  by (induction rule: serves.induct)
    (simp_all add: get_capybaras_def get_capybara_def post_capybara_def put_capybara_def
      delete_capybara_def Let_def)

text \<open>
  C10: the handlers of the in-memory service are deterministic: two runs of the same request
  from equal collections give equal responses (status and body) and equal collections.
\<close>

theorem handlers_deterministic:
  assumes "serves cs r a s" and "serves cs' r' a' s'" and "cs = cs'" and "r = r'"
  shows "a = a' \<and> s = s'"
  using assms serves_is_handle [of cs r a s] serves_is_handle [of cs' r' a' s'] by simp

theorem handlers_deterministic_witness:
  "serves [] (Post (named ''a'')) (resp (handle [] (Post (named ''a''))))
     (store (handle [] (Post (named ''a''))))
   \<and> resp (handle [] (Post (named ''a'')))
       = \<lparr>status = 201, payload = Item \<lparr>id' = 1, name = Str (js ''a'')\<rparr>\<rparr>
   \<and> store (handle [] (Post (named ''a''))) = [\<lparr>id' = 1, name = Str (js ''a'')\<rparr>]"
proof -
  have n: "get_property (js ''name'') (named ''a'') = Inr (Str (js ''a''))"
    by (simp add: named_def js_def)
  have ne: "js ''a'' \<noteq> []"
    by (simp add: js_def)
  have h1: "serves [] (Post (named ''a'')) (resp (handle [] (Post (named ''a''))))
     (store (handle [] (Post (named ''a''))))"
    by (rule serves_handle)
  have h2: "serves [] (Post (named ''a''))
     \<lparr>status = 201, payload = Item \<lparr>id' = 1, name = Str (js ''a'')\<rparr>\<rparr>
     ([] @ [\<lparr>id' = 1, name = Str (js ''a'')\<rparr>])"
    by (rule serves.post_created [OF n]) (simp_all add: ne)
  from handlers_deterministic [OF h1 h2 refl refl] h1 show ?thesis by simp
qed

end
